theory Spec2Isabelle
  imports Main
begin

section \<open>Credential Verifier\<close>

text \<open>
  The middleware of \<^verbatim>\<open>backend/tests/auth.test.js\<close>:
  \<^verbatim>\<open>
  const authMiddleware = async (req, res, next) => {
    const { token } = req.headers;
    if (!token) {
      return res.json({ success: false, message: "Not Authorized. Login Again" });
    }
    try {
      const decoded = jwt.verify(token, process.env.JWT_SECRET || 'test-secret');
      req.body.userId = decoded.id;
      next();
    } catch (error) {
      res.json({ success: false, message: "Error" });
    }
  };
  \<close>
  A request carries the \<^verbatim>\<open>token\<close> header (absent, or a string) and
  \<^verbatim>\<open>req.body\<close>, which is an object once a body parser has run and
  \<^verbatim>\<open>undefined\<close> (\<open>None\<close>) otherwise. The \<^verbatim>\<open>userId\<close> field of the body is a user
  identifier or \<^verbatim>\<open>undefined\<close> (\<open>None\<close>): the client may or may not have filled it in.
\<close>

record req_headers =
  token :: "string option"

record req_body =
  userId :: "string option"

record request =
  headers :: req_headers
  body :: "req_body option"

text \<open>The object handed to \<^verbatim>\<open>res.json\<close>.\<close>

record json_reply =
  success :: bool
  message :: string

text \<open>
  The effects of one run of a middleware: the request object (mutated in place by the
  source), the replies passed to \<^verbatim>\<open>res.json\<close> in order, and how often
  \<^verbatim>\<open>next\<close> was called.
\<close>

record exchange =
  req :: request
  sent :: "json_reply list"
  next_calls :: nat

definition incoming :: "request \<Rightarrow> exchange" where
  "incoming r = \<lparr>req = r, sent = [], next_calls = 0\<rparr>"

definition res_json :: "json_reply \<Rightarrow> exchange \<Rightarrow> exchange" where
  "res_json r x = x\<lparr>sent := sent x @ [r]\<rparr>"

definition next_handler :: "exchange \<Rightarrow> exchange" where
  "next_handler x = x\<lparr>next_calls := Suc (next_calls x)\<rparr>"

subsection \<open>The token library\<close>

text \<open>
  The claims of a token. \<^verbatim>\<open>jwt.sign({ id }, secret)\<close> issues the user identifier, the
  issued-at time and, when the token was signed with a lifetime, the expiry time
  (seconds). A payload signed without an \<^verbatim>\<open>id\<close> has none: \<^verbatim>\<open>decoded.id\<close> is then
  \<^verbatim>\<open>undefined\<close> (\<open>None\<close>).
\<close>

record jwt_payload =
  payload_id :: "string option"
  iat :: nat
  exp :: "nat option"

record jwt =
  claims :: jwt_payload
  signed_with :: string

datatype jwt_error = JsonWebTokenError | TokenExpiredError

definition expired :: "nat \<Rightarrow> jwt_payload \<Rightarrow> bool" where
  "expired now p = (case exp p of None \<Rightarrow> False | Some e \<Rightarrow> e \<le> now)"

text \<open>
  Modelled from the spec: \<^verbatim>\<open>jwt.verify\<close> belongs to the jsonwebtoken package, which
  is not under src/. The spec's data model has the token as an "opaque signed credential
  encoding {user identifier, issued-at}", "verified by signature and expiry", and the
  verifier failing on "signature/format/expiry failure". The parser of the compact
  serialisation is the parameter \<open>decode\<close> (\<open>None\<close> for a string that is no token); the
  signature is represented by the secret the token was signed with. A failure is the
  exception the library throws.
\<close>

definition jwt_verify ::
  "(string \<Rightarrow> jwt option) \<Rightarrow> nat \<Rightarrow> string \<Rightarrow> string \<Rightarrow> jwt_error + jwt_payload" where
  "jwt_verify decode now tok secret =
     (case decode tok of
        None \<Rightarrow> Inl JsonWebTokenError
      | Some t \<Rightarrow>
          if signed_with t \<noteq> secret then Inl JsonWebTokenError
          else if expired now (claims t) then Inl TokenExpiredError
          else Inr (claims t))"

subsection \<open>The middleware\<close>

text \<open>\<^verbatim>\<open>process.env.JWT_SECRET || 'test-secret'\<close>: an unset or empty variable is falsy.\<close>

definition jwt_secret :: "string option \<Rightarrow> string" where
  "jwt_secret env =
     (case env of None \<Rightarrow> ''test-secret'' | Some s \<Rightarrow> if s = [] then ''test-secret'' else s)"

definition not_authorized :: json_reply where
  "not_authorized = \<lparr>success = False, message = ''Not Authorized. Login Again''\<rparr>"

definition error_reply :: json_reply where
  "error_reply = \<lparr>success = False, message = ''Error''\<rparr>"

text \<open>
  \<^verbatim>\<open>!token\<close> holds for an absent header and for the empty string. The body of
  \<^verbatim>\<open>try\<close> has three statements, and whatever one of them throws is caught and
  answered with \<^verbatim>\<open>"Error"\<close>:
  \<^item> \<^verbatim>\<open>jwt.verify\<close> throws on a token it does not accept;
  \<^item> the assignment \<^verbatim>\<open>req.body.userId = decoded.id\<close> throws a TypeError when
    \<^verbatim>\<open>req.body\<close> is \<^verbatim>\<open>undefined\<close>; otherwise it stores \<^verbatim>\<open>decoded.id\<close> as it is,
    \<^verbatim>\<open>undefined\<close> included;
  \<^item> \<^verbatim>\<open>next\<close> is the framework's continuation: it passes the request on and hands the
    errors of later handlers to the error handler rather than throwing them back.
\<close>

definition authMiddleware ::
  "(string \<Rightarrow> jwt option) \<Rightarrow> nat \<Rightarrow> string option \<Rightarrow> exchange \<Rightarrow> exchange" where
  "authMiddleware decode now env x =
     (case token (headers (req x)) of
        None \<Rightarrow> res_json not_authorized x
      | Some t \<Rightarrow>
          if t = [] then res_json not_authorized x
          else
            (case jwt_verify decode now t (jwt_secret env) of
               Inr decoded \<Rightarrow>
                 (case body (req x) of
                    None \<Rightarrow> res_json error_reply x
                  | Some b \<Rightarrow>
                      next_handler
                        (x\<lparr>req := (req x)\<lparr>body := Some (b\<lparr>userId := payload_id decoded\<rparr>)\<rparr>\<rparr>))
             | Inl error \<Rightarrow> res_json error_reply x))"

text \<open>
  The two rejections of the spec's taxonomy, told apart by the reply the client gets, and
  the outcome of a run as the Credential Verifier's contract names it.
  \<open>handler_userId\<close> is what \<^verbatim>\<open>req.body.userId\<close> evaluates to after the run
  (\<open>None\<close> for \<^verbatim>\<open>undefined\<close>).
\<close>

datatype rejection = Unauthenticated | InvalidToken

definition rejection_of :: "json_reply \<Rightarrow> rejection option" where
  "rejection_of r =
     (if r = not_authorized then Some Unauthenticated
      else if r = error_reply then Some InvalidToken
      else None)"

definition handler_userId :: "exchange \<Rightarrow> string option" where
  "handler_userId x = (case body (req x) of None \<Rightarrow> None | Some b \<Rightarrow> userId b)"

definition accepted_as :: "exchange \<Rightarrow> string \<Rightarrow> bool" where
  "accepted_as x u = (next_calls x = 1 \<and> sent x = [] \<and> handler_userId x = Some u)"

definition rejected_with :: "exchange \<Rightarrow> rejection \<Rightarrow> bool" where
  "rejected_with x e =
     (next_calls x = 0 \<and>
      (case sent x of [r] \<Rightarrow> \<not> success r \<and> rejection_of r = Some e | _ \<Rightarrow> False))"

text \<open>
  A token that the server signed and that has not expired: it parses, its signature is
  the server secret's, and its expiry, if any, lies ahead. \<open>encoded_id\<close> is the
  identifier its payload carries, if it carries one.
\<close>

definition valid_token :: "(string \<Rightarrow> jwt option) \<Rightarrow> nat \<Rightarrow> string \<Rightarrow> string \<Rightarrow> bool" where
  "valid_token decode now secret tok =
     (case decode tok of
        None \<Rightarrow> False
      | Some t \<Rightarrow> signed_with t = secret \<and> \<not> expired now (claims t))"

definition encoded_id :: "(string \<Rightarrow> jwt option) \<Rightarrow> string \<Rightarrow> string option" where
  "encoded_id decode tok = (case decode tok of None \<Rightarrow> None | Some t \<Rightarrow> payload_id (claims t))"

text \<open>
  The tokens of the unit tests: \<^verbatim>\<open>jwt.sign({ id: 'user123' }, 'test-secret')\<close>, written
  here as the string \<open>''user123.test-secret''\<close>, and strings that are no token, such as
  \<^verbatim>\<open>'invalid-token'\<close>. Beside them \<^verbatim>\<open>jwt.sign({}, 'test-secret')\<close>, a token of the
  same secret whose payload has no \<^verbatim>\<open>id\<close>, written \<open>''noid.test-secret''\<close>.
\<close>

definition test_decode :: "string \<Rightarrow> jwt option" where
  "test_decode s =
     (if s = ''user123.test-secret''
      then Some \<lparr>claims = \<lparr>payload_id = Some ''user123'', iat = 0, exp = None\<rparr>,
                 signed_with = ''test-secret''\<rparr>
      else if s = ''noid.test-secret''
      then Some \<lparr>claims = \<lparr>payload_id = None, iat = 0, exp = None\<rparr>,
                 signed_with = ''test-secret''\<rparr>
      else None)"

text \<open>
  The request of the unit tests, \<^verbatim>\<open>{ headers: { token }, body: { userId } }\<close>, and a
  request on which no body parser has left a body.
\<close>

definition mockReq :: "string option \<Rightarrow> string option \<Rightarrow> request" where
  "mockReq tok uid = \<lparr>headers = \<lparr>token = tok\<rparr>, body = Some \<lparr>userId = uid\<rparr>\<rparr>"

definition bodylessReq :: "string option \<Rightarrow> request" where
  "bodylessReq tok = \<lparr>headers = \<lparr>token = tok\<rparr>, body = None\<rparr>"

section \<open>Health endpoint\<close>

text \<open>
  \<^verbatim>\<open>
  app.get("/health", (req, res) => {
    res.status(200).json({
      status: "UP",
      timestamp: new Date().toISOString(),
      uptime: process.uptime()
    });
  });
  \<close>
  The process state the handler could read: the clock behind \<^verbatim>\<open>new Date()\<close>, the
  reading of \<^verbatim>\<open>process.uptime()\<close> and whether the database connection opened by
  \<^verbatim>\<open>connectDB()\<close> is up. The timestamp is kept as the clock reading (milliseconds)
  rather than formatted, the uptime as whole milliseconds.
\<close>

record process_state =
  date_now :: nat
  process_uptime :: nat
  db_connected :: bool

record health_body =
  status :: string
  timestamp :: nat
  uptime :: nat

record http_response =
  status_code :: nat
  json_body :: health_body

definition health :: "process_state \<Rightarrow> http_response" where
  "health p =
     \<lparr>status_code = 200,
      json_body = \<lparr>status = ''UP'', timestamp = date_now p, uptime = process_uptime p\<rparr>\<rparr>"

section \<open>Cart Aggregator\<close>

text \<open>
  The controllers behind \<^verbatim>\<open>routes/cartRoute.js\<close> and \<^verbatim>\<open>routes/orderRoute.js\<close>, which
  \<^verbatim>\<open>server.js\<close> mounts under \<^verbatim>\<open>/api/cart\<close> and \<^verbatim>\<open>/api/order\<close>, are not under src/.
  The definitions of this section and the next follow the spec's component design.
\<close>

datatype validation = EmptyCart | BadQuantity

datatype app_error = NotFound | ValidationError validation | UpstreamFailure

record user =
  user_name :: string
  email :: string
  password :: string
  cartData :: "string \<rightharpoonup> int"

record food_item =
  food_name :: string
  description :: string
  price :: int
  category :: string
  image_ref :: string

record order_item =
  item_ref :: string
  quantity :: int

record order =
  order_id :: nat
  owner :: string
  order_items :: "order_item list"
  amount :: int
  address :: string
  payment :: bool
  fulfilment :: string
  created :: nat

text \<open>
  The collections of the document database, the counter the database draws fresh order
  identifiers from, and the orders for which a payment intent was started at the gateway.
\<close>

record store =
  users :: "string \<rightharpoonup> user"
  catalog :: "string \<rightharpoonup> food_item"
  orders :: "order list"
  next_order_id :: nat
  payment_intents :: "nat list"

text \<open>The quantity of an item in a cart; an item without an entry counts as zero.\<close>

definition qty :: "(string \<rightharpoonup> int) \<Rightarrow> string \<Rightarrow> int" where
  "qty c i = (case c i of None \<Rightarrow> 0 | Some q \<Rightarrow> q)"

text \<open>
  Modelled from the spec: the cart controller's add operation is not under src/.
  "\<^verbatim>\<open>addItem(user, itemId)\<close>: increments quantity for itemId by 1 (default 0 \<rightarrow> 1).
  Always succeeds if user exists." A missing user is the taxonomy's \<open>NotFound\<close>.
\<close>

definition addItem :: "store \<Rightarrow> string \<Rightarrow> string \<Rightarrow> app_error + store" where
  "addItem s u i =
     (case users s u of
        None \<Rightarrow> Inl NotFound
      | Some usr \<Rightarrow>
          Inr (s\<lparr>users := (users s)(u \<mapsto> usr\<lparr>cartData := (cartData usr)(i \<mapsto> qty (cartData usr) i + 1)\<rparr>)\<rparr>))"

text \<open>
  Modelled from the spec: the cart controller's remove operation is not under src/.
  "\<^verbatim>\<open>removeItem(user, itemId)\<close>: decrements quantity by 1; floors at 0; if result is 0,
  entry may be pruned." Whether a zero entry is pruned is left open by the spec; it is the
  parameter \<open>prune\<close>, so that every theorem holds for either choice.
\<close>

definition removeItem :: "bool \<Rightarrow> store \<Rightarrow> string \<Rightarrow> string \<Rightarrow> app_error + store" where
  "removeItem prune s u i =
     (case users s u of
        None \<Rightarrow> Inl NotFound
      | Some usr \<Rightarrow>
          let q = max 0 (qty (cartData usr) i - 1);
              c = (if q = 0 \<and> prune then (cartData usr)(i := None) else (cartData usr)(i \<mapsto> q))
          in Inr (s\<lparr>users := (users s)(u \<mapsto> usr\<lparr>cartData := c\<rparr>)\<rparr>))"

text \<open>
  Modelled from the spec: the cart controller's read operation is not under src/.
  "\<^verbatim>\<open>getCart(user)\<close>: returns the full mapping."
\<close>

definition getCart :: "store \<Rightarrow> string \<Rightarrow> app_error + (string \<rightharpoonup> int)" where
  "getCart s u = (case users s u of None \<Rightarrow> Inl NotFound | Some usr \<Rightarrow> Inr (cartData usr))"

text \<open>
  Sequences of cart requests. A request that fails leaves the store as it was; a read
  never changes it.
\<close>

datatype cart_op = AddItem string string | RemoveItem string string | GetCart string

fun cart_step :: "bool \<Rightarrow> store \<Rightarrow> cart_op \<Rightarrow> store" where
  "cart_step prune s (AddItem u i) = (case addItem s u i of Inl e \<Rightarrow> s | Inr s' \<Rightarrow> s')"
| "cart_step prune s (RemoveItem u i) = (case removeItem prune s u i of Inl e \<Rightarrow> s | Inr s' \<Rightarrow> s')"
| "cart_step prune s (GetCart u) = (case getCart s u of Inl e \<Rightarrow> s | Inr c \<Rightarrow> s)"

fun run_cart :: "bool \<Rightarrow> store \<Rightarrow> cart_op list \<Rightarrow> store" where
  "run_cart prune s [] = s"
| "run_cart prune s (x # xs) = run_cart prune (cart_step prune s x) xs"

text \<open>The data model's invariant on carts: no quantity is negative.\<close>

definition cart_nonneg :: "(string \<rightharpoonup> int) \<Rightarrow> bool" where
  "cart_nonneg c = (\<forall>q \<in> ran c. 0 \<le> q)"

definition carts_nonneg :: "store \<Rightarrow> bool" where
  "carts_nonneg s = (\<forall>usr \<in> ran (users s). cart_nonneg (cartData usr))"

text \<open>The quantity a user's \<^verbatim>\<open>getCart\<close> shows for an item.\<close>

definition cart_qty :: "store \<Rightarrow> string \<Rightarrow> string \<Rightarrow> int option" where
  "cart_qty s u i = (case getCart s u of Inl e \<Rightarrow> None | Inr c \<Rightarrow> Some (qty c i))"

section \<open>Order Ledger\<close>

text \<open>
  Modelled from the spec: the order controller's computation of the total is not under
  src/. \<^verbatim>\<open>placeOrder\<close> "computes total from current catalog prices": the total is
  accumulated item by item. An item that the catalog does not list is the taxonomy's
  \<open>NotFound\<close>.
\<close>

fun order_total :: "(string \<rightharpoonup> food_item) \<Rightarrow> order_item list \<Rightarrow> int \<Rightarrow> app_error + int" where
  "order_total cat [] acc = Inr acc"
| "order_total cat (it # its) acc =
     (case cat (item_ref it) of
        None \<Rightarrow> Inl NotFound
      | Some f \<Rightarrow> order_total cat its (acc + price f * quantity it))"

text \<open>
  Modelled from the spec: the order controller's checkout is not under src/.
  "\<^verbatim>\<open>placeOrder(user, items, address)\<close>: validates items non-empty and quantities
  positive, computes total from current catalog prices, persists an order in the initial
  state, clears the user's cart, and initiates a payment-intent side effect with the
  external payment collaborator. Fails with \<open>EmptyCart\<close> if items is empty." The initial
  state is "Food Processing". The gateway is the parameter \<open>gw\<close>: it answers with a
  session URL, or not at all; the spec has no rollback, so an order whose payment intent
  could not be started stays persisted and the call reports \<open>UpstreamFailure\<close>.
\<close>

definition placeOrder ::
  "(order \<Rightarrow> string option) \<Rightarrow> nat \<Rightarrow> store \<Rightarrow> string \<Rightarrow> order_item list \<Rightarrow> string
     \<Rightarrow> (app_error + string) \<times> store" where
  "placeOrder gw now s u its addr =
     (if its = [] then (Inl (ValidationError EmptyCart), s)
      else if list_ex (\<lambda>it. quantity it \<le> 0) its then (Inl (ValidationError BadQuantity), s)
      else
        (case order_total (catalog s) its 0 of
           Inl e \<Rightarrow> (Inl e, s)
         | Inr amt \<Rightarrow>
             (case users s u of
                None \<Rightarrow> (Inl NotFound, s)
              | Some usr \<Rightarrow>
                  let ord = \<lparr>order_id = next_order_id s, owner = u, order_items = its,
                             amount = amt, address = addr, payment = False,
                             fulfilment = ''Food Processing'', created = now\<rparr>;
                      s1 = s\<lparr>orders := orders s @ [ord], next_order_id := Suc (next_order_id s)\<rparr>;
                      s2 = s1\<lparr>users := (users s1)(u \<mapsto> usr\<lparr>cartData := Map.empty\<rparr>)\<rparr>
                  in (case gw ord of
                        None \<Rightarrow> (Inl UpstreamFailure, s2)
                      | Some url \<Rightarrow>
                          (Inr url, s2\<lparr>payment_intents := payment_intents s2 @ [order_id ord]\<rparr>)))))"

text \<open>What one ordered item costs at the catalog's price, as the spec's invariant sums it.\<close>

definition line_total :: "(string \<rightharpoonup> food_item) \<Rightarrow> order_item \<Rightarrow> int" where
  "line_total cat it = (case cat (item_ref it) of None \<Rightarrow> 0 | Some f \<Rightarrow> price f * quantity it)"

text \<open>
  Modelled from the spec: the database calls of the order controller are not under src/.
  \<^verbatim>\<open>verifyPayment\<close> is "scoped strictly to the one order id supplied": the database
  updates or deletes the one document with the given identifier, the first record of the
  collection that carries it.
\<close>

fun mark_paid :: "nat \<Rightarrow> order list \<Rightarrow> order list" where
  "mark_paid oid [] = []"
| "mark_paid oid (x # xs) =
     (if order_id x = oid then x\<lparr>payment := True\<rparr> # xs else x # mark_paid oid xs)"

fun delete_order :: "nat \<Rightarrow> order list \<Rightarrow> order list" where
  "delete_order oid [] = []"
| "delete_order oid (x # xs) = (if order_id x = oid then xs else x # delete_order oid xs)"

definition find_order :: "store \<Rightarrow> nat \<Rightarrow> order option" where
  "find_order s oid = find (\<lambda>x. order_id x = oid) (orders s)"

text \<open>
  Modelled from the spec: the order controller's payment verification is not under src/.
  "\<^verbatim>\<open>verifyPayment(orderId, success)\<close>: on success marks payment status true and
  leaves order if not success deletes the order record". An identifier that no order
  carries is the taxonomy's \<open>NotFound\<close>.
\<close>

definition verifyPayment :: "store \<Rightarrow> nat \<Rightarrow> bool \<Rightarrow> app_error + store" where
  "verifyPayment s oid ok =
     (case find_order s oid of
        None \<Rightarrow> Inl NotFound
      | Some x \<Rightarrow>
          if ok then Inr (s\<lparr>orders := mark_paid oid (orders s)\<rparr>)
          else Inr (s\<lparr>orders := delete_order oid (orders s)\<rparr>))"

text \<open>
  The scenario of the spec's testable properties: user A, registered with an empty cart,
  and a catalog that lists the item f1.
\<close>

definition user_A :: user where
  "user_A = \<lparr>user_name = ''A'', email = ''a@x.com'', password = ''hashed'', cartData = Map.empty\<rparr>"

definition item_f1 :: food_item where
  "item_f1 = \<lparr>food_name = ''Salad'', description = ''Greek salad'', price = 12,
              category = ''Salad'', image_ref = ''f1.png''\<rparr>"

definition store0 :: store where
  "store0 = \<lparr>users = [''A'' \<mapsto> user_A], catalog = [''f1'' \<mapsto> item_f1], orders = [],
             next_order_id = 0, payment_intents = []\<rparr>"

definition stripe_ok :: "order \<Rightarrow> string option" where
  "stripe_ok x = Some ''https://pay.example/session''"

text \<open>The same store after user A has ordered two of f1 and the payment is pending.\<close>

definition order_0 :: order where
  "order_0 = \<lparr>order_id = 0, owner = ''A'', order_items = [\<lparr>item_ref = ''f1'', quantity = 2\<rparr>],
              amount = 24, address = ''12 Main St'', payment = False,
              fulfilment = ''Food Processing'', created = 7\<rparr>"

definition store1 :: store where
  "store1 = store0\<lparr>orders := [order_0], next_order_id := 1, payment_intents := [0]\<rparr>"

section \<open>Properties of the Credential Verifier\<close>

lemmas auth_defs = authMiddleware_def res_json_def next_handler_def incoming_def
  jwt_verify_def valid_token_def encoded_id_def accepted_as_def rejected_with_def
  rejection_of_def not_authorized_def error_reply_def handler_userId_def

lemmas test_defs = test_decode_def mockReq_def bodylessReq_def jwt_secret_def expired_def

text \<open>
  C1, as stated, fails at two inputs. A token header that is present and empty: the empty
  string is no token, \<^verbatim>\<open>jwt.verify\<close> would throw on it, yet the guard \<^verbatim>\<open>!token\<close>
  answers first and the client gets the Unauthenticated rejection, not the InvalidToken
  one. And the token of the unit tests, signed with the server secret and unexpired, on a
  request without a body: the assignment to \<^verbatim>\<open>req.body.userId\<close> throws inside the
  \<^verbatim>\<open>try\<close>, \<^verbatim>\<open>next\<close> is not called and the client gets the InvalidToken rejection.
\<close>

theorem authMiddleware_empty_token:
  "jwt_verify test_decode 0 [] (jwt_secret (Some ''test-secret'')) = Inl JsonWebTokenError
   \<and> \<not> valid_token test_decode 0 (jwt_secret (Some ''test-secret'')) []
   \<and> rejected_with (authMiddleware test_decode 0 (Some ''test-secret'') (incoming (mockReq (Some []) None))) Unauthenticated
   \<and> \<not> rejected_with (authMiddleware test_decode 0 (Some ''test-secret'') (incoming (mockReq (Some []) None))) InvalidToken
   \<and> valid_token test_decode 0 (jwt_secret (Some ''test-secret'')) ''user123.test-secret''
   \<and> rejected_with (authMiddleware test_decode 0 (Some ''test-secret'') (incoming (bodylessReq (Some ''user123.test-secret'')))) InvalidToken
   \<and> next_calls (authMiddleware test_decode 0 (Some ''test-secret'') (incoming (bodylessReq (Some ''user123.test-secret'')))) = 0"
  by (simp add: auth_defs test_defs)

text \<open>
  C1 (amended): for every request, if the token header is absent or empty the run is
  rejected as Unauthenticated; if it holds a non-empty string that is not a token signed
  with the server secret and unexpired (malformed, signed with another secret, or
  expired), the run is rejected as InvalidToken, a rejection distinct from the first; if it
  holds a non-empty token signed with the server secret and unexpired and the request has
  a body, the run succeeds: \<^verbatim>\<open>next\<close> is called once, nothing is sent, and the body's
  \<^verbatim>\<open>userId\<close> is exactly the \<^verbatim>\<open>id\<close> of the token's payload, so the run is accepted as
  the user identifier the token encodes.
\<close>

theorem authMiddleware_contract:
  "(token (headers r) = None \<or> token (headers r) = Some [] \<longrightarrow>
      rejected_with (authMiddleware decode now env (incoming r)) Unauthenticated)
   \<and> (token (headers r) = Some t \<and> t \<noteq> [] \<and> \<not> valid_token decode now (jwt_secret env) t \<longrightarrow>
      rejected_with (authMiddleware decode now env (incoming r)) InvalidToken)
   \<and> (token (headers r) = Some t \<and> t \<noteq> [] \<and> valid_token decode now (jwt_secret env) t
        \<and> body r = Some b \<longrightarrow>
      next_calls (authMiddleware decode now env (incoming r)) = 1
      \<and> sent (authMiddleware decode now env (incoming r)) = []
      \<and> req (authMiddleware decode now env (incoming r)) = r\<lparr>body := Some (b\<lparr>userId := encoded_id decode t\<rparr>)\<rparr>
      \<and> handler_userId (authMiddleware decode now env (incoming r)) = encoded_id decode t
      \<and> (\<forall>u. encoded_id decode t = Some u \<longrightarrow> accepted_as (authMiddleware decode now env (incoming r)) u))
   \<and> message not_authorized \<noteq> message error_reply"
  by (auto simp: auth_defs split: option.splits)

text \<open>
  The three cases of C1 on the requests of the unit tests: no token, \<^verbatim>\<open>'invalid-token'\<close>
  and the token signed for \<^verbatim>\<open>user123\<close>.
\<close>

theorem authMiddleware_contract_witness:
  "rejected_with (authMiddleware test_decode 0 (Some ''test-secret'') (incoming (mockReq None None))) Unauthenticated
   \<and> rejected_with (authMiddleware test_decode 0 (Some ''test-secret'') (incoming (mockReq (Some ''invalid-token'') None))) InvalidToken
   \<and> valid_token test_decode 0 (jwt_secret (Some ''test-secret'')) ''user123.test-secret''
   \<and> encoded_id test_decode ''user123.test-secret'' = Some ''user123''
   \<and> accepted_as (authMiddleware test_decode 0 (Some ''test-secret'') (incoming (mockReq (Some ''user123.test-secret'') None))) ''user123''"
  using authMiddleware_contract [where r = "mockReq None None" and decode = test_decode and now = 0 and env = "Some ''test-secret''" and t = "[]"]
    authMiddleware_contract [where r = "mockReq (Some ''invalid-token'') None" and t = "''invalid-token''" and decode = test_decode and now = 0 and env = "Some ''test-secret''"]
    authMiddleware_contract [where r = "mockReq (Some ''user123.test-secret'') None" and t = "''user123.test-secret''" and decode = test_decode and now = 0 and env = "Some ''test-secret''" and b = "\<lparr>userId = None\<rparr>"]
  by (simp add: test_defs valid_token_def encoded_id_def)

text \<open>
  C2: a request proceeds to the handler only if it carries a token whose signature
  validates against the server secret and that has not expired, and then nothing was sent
  and the request is annotated with the identifier the token encodes; a request with any
  other token does not proceed and is rejected.
\<close>

theorem authMiddleware_accepts_only_valid:
  "(0 < next_calls (authMiddleware decode now env (incoming r)) \<longrightarrow>
      (\<exists>t. token (headers r) = Some t \<and> t \<noteq> [] \<and> valid_token decode now (jwt_secret env) t
         \<and> next_calls (authMiddleware decode now env (incoming r)) = 1
         \<and> sent (authMiddleware decode now env (incoming r)) = []
         \<and> handler_userId (authMiddleware decode now env (incoming r)) = encoded_id decode t
         \<and> (\<forall>u. encoded_id decode t = Some u \<longrightarrow> accepted_as (authMiddleware decode now env (incoming r)) u)))
   \<and> (token (headers r) = Some t \<and> \<not> valid_token decode now (jwt_secret env) t \<longrightarrow>
      next_calls (authMiddleware decode now env (incoming r)) = 0
      \<and> (rejected_with (authMiddleware decode now env (incoming r)) Unauthenticated
         \<or> rejected_with (authMiddleware decode now env (incoming r)) InvalidToken))"
  by (auto simp: auth_defs split: option.splits if_splits)

text \<open>
  The valid token of the unit tests is accepted, \<^verbatim>\<open>'invalid-token'\<close> is rejected.
\<close>

theorem authMiddleware_accepts_only_valid_witness:
  "0 < next_calls (authMiddleware test_decode 0 (Some ''test-secret'') (incoming (mockReq (Some ''user123.test-secret'') None)))
   \<and> valid_token test_decode 0 ''test-secret'' ''user123.test-secret''
   \<and> accepted_as (authMiddleware test_decode 0 (Some ''test-secret'') (incoming (mockReq (Some ''user123.test-secret'') None))) ''user123''
   \<and> \<not> valid_token test_decode 0 ''test-secret'' ''invalid-token''
   \<and> rejected_with (authMiddleware test_decode 0 (Some ''test-secret'') (incoming (mockReq (Some ''invalid-token'') None))) InvalidToken"
proof -
  let ?ok = "mockReq (Some ''user123.test-secret'') None"
  let ?bad = "mockReq (Some ''invalid-token'') None"
  have h1: "0 < next_calls (authMiddleware test_decode 0 (Some ''test-secret'') (incoming ?ok))"
    by (simp add: auth_defs test_defs)
  have h2: "token (headers ?bad) = Some ''invalid-token''
      \<and> \<not> valid_token test_decode 0 (jwt_secret (Some ''test-secret'')) ''invalid-token''"
    by (simp add: valid_token_def test_defs)
  have e: "encoded_id test_decode ''user123.test-secret'' = Some ''user123''"
    by (simp add: encoded_id_def test_decode_def)
  have t: "token (headers ?ok) = Some ''user123.test-secret''"
    by (simp add: mockReq_def)
  have s: "jwt_secret (Some ''test-secret'') = ''test-secret''"
    by (simp add: jwt_secret_def)
  have r: "\<not> rejected_with (authMiddleware test_decode 0 (Some ''test-secret'') (incoming ?bad)) Unauthenticated"
    by (simp add: auth_defs test_defs)
  from authMiddleware_accepts_only_valid [where r = ?ok and decode = test_decode and now = 0
      and env = "Some ''test-secret''"] h1 t e s
  have a: "valid_token test_decode 0 ''test-secret'' ''user123.test-secret''
      \<and> accepted_as (authMiddleware test_decode 0 (Some ''test-secret'') (incoming ?ok)) ''user123''"
    by auto
  from authMiddleware_accepts_only_valid [where r = ?bad and t = "''invalid-token''"
      and decode = test_decode and now = 0 and env = "Some ''test-secret''"] h2 r s
  have b: "\<not> valid_token test_decode 0 ''test-secret'' ''invalid-token''
      \<and> rejected_with (authMiddleware test_decode 0 (Some ''test-secret'') (incoming ?bad)) InvalidToken"
    by auto
  from h1 a b show ?thesis by simp
qed

text \<open>
  C3, as stated, fails for a token that is signed with the server secret and unexpired but
  whose payload carries no \<^verbatim>\<open>id\<close>: \<^verbatim>\<open>decoded.id\<close> is stored unchecked and
  \<^verbatim>\<open>next\<close> is called, so the handler runs on a request whose \<^verbatim>\<open>userId\<close> is
  \<^verbatim>\<open>undefined\<close>. The run neither annotates the request with a user identifier nor
  sends a rejection.
\<close>

theorem authMiddleware_idless_token:
  "valid_token test_decode 0 (jwt_secret (Some ''test-secret'')) ''noid.test-secret''
   \<and> next_calls (authMiddleware test_decode 0 (Some ''test-secret'') (incoming (mockReq (Some ''noid.test-secret'') None))) = 1
   \<and> sent (authMiddleware test_decode 0 (Some ''test-secret'') (incoming (mockReq (Some ''noid.test-secret'') None))) = []
   \<and> handler_userId (authMiddleware test_decode 0 (Some ''test-secret'') (incoming (mockReq (Some ''noid.test-secret'') None))) = None"
  by (simp add: auth_defs test_defs)

text \<open>
  C3 (amended): every run of the middleware on an incoming request, with or without a
  body, ends in exactly one of two ways, and no exception escapes it. Either \<^verbatim>\<open>next\<close>
  was called once, nothing was sent, and the request is the incoming one with the body's
  \<^verbatim>\<open>userId\<close> set to the \<^verbatim>\<open>id\<close> of the verified token's payload (one user identifier
  when the payload carries an \<^verbatim>\<open>id\<close>); or \<^verbatim>\<open>next\<close> was not called, exactly one reply
  was sent, of the form \<^verbatim>\<open>{success: false, message}\<close>, and the request is untouched.
  What \<^verbatim>\<open>jwt.verify\<close> or the assignment throws is a branch of the run: it ends in the
  second way.
\<close>

theorem authMiddleware_one_outcome:
  "(next_calls (authMiddleware decode now env (incoming r)) = 1
      \<and> sent (authMiddleware decode now env (incoming r)) = []
      \<and> (\<exists>t b. token (headers r) = Some t \<and> body r = Some b
            \<and> valid_token decode now (jwt_secret env) t
            \<and> req (authMiddleware decode now env (incoming r))
                = r\<lparr>body := Some (b\<lparr>userId := encoded_id decode t\<rparr>)\<rparr>
            \<and> handler_userId (authMiddleware decode now env (incoming r)) = encoded_id decode t))
   \<or> (next_calls (authMiddleware decode now env (incoming r)) = 0
      \<and> (\<exists>m. sent (authMiddleware decode now env (incoming r)) = [\<lparr>success = False, message = m\<rparr>])
      \<and> req (authMiddleware decode now env (incoming r)) = r)"
  by (auto simp: auth_defs split: option.splits sum.splits if_splits)

text \<open>
  Both ways on the requests of the unit tests: the token of \<^verbatim>\<open>user123\<close> is passed on
  with that identifier and nothing is sent; the same token on a request without a body is
  answered once and not passed on.
\<close>

theorem authMiddleware_one_outcome_witness:
  "accepted_as (authMiddleware test_decode 0 (Some ''test-secret'') (incoming (mockReq (Some ''user123.test-secret'') None))) ''user123''
   \<and> next_calls (authMiddleware test_decode 0 (Some ''test-secret'') (incoming (bodylessReq (Some ''user123.test-secret'')))) = 0
   \<and> sent (authMiddleware test_decode 0 (Some ''test-secret'') (incoming (bodylessReq (Some ''user123.test-secret'')))) = [error_reply]"
proof -
  let ?ok = "mockReq (Some ''user123.test-secret'') None"
  let ?nb = "bodylessReq (Some ''user123.test-secret'')"
  have n1: "next_calls (authMiddleware test_decode 0 (Some ''test-secret'') (incoming ?ok)) \<noteq> 0"
    by (simp add: auth_defs test_defs)
  have e: "token (headers ?ok) = Some ''user123.test-secret''
      \<and> encoded_id test_decode ''user123.test-secret'' = Some ''user123''"
    by (simp add: encoded_id_def test_defs)
  from authMiddleware_one_outcome [of test_decode 0 "Some ''test-secret''" ?ok] n1 e
  have a: "accepted_as (authMiddleware test_decode 0 (Some ''test-secret'') (incoming ?ok)) ''user123''"
    by (auto simp: accepted_as_def)
  have n2: "body ?nb = None" by (simp add: bodylessReq_def)
  have m: "sent (authMiddleware test_decode 0 (Some ''test-secret'') (incoming ?nb)) = [error_reply]"
    by (simp add: auth_defs test_defs)
  from authMiddleware_one_outcome [of test_decode 0 "Some ''test-secret''" ?nb] n2
  have b: "next_calls (authMiddleware test_decode 0 (Some ''test-secret'') (incoming ?nb)) = 0"
    by auto
  from a b m show ?thesis by simp
qed

text \<open>
  C10: when a request passes the middleware, the \<^verbatim>\<open>userId\<close> the handler sees is the
  identifier encoded in the token, whatever \<^verbatim>\<open>userId\<close> the client put in the body; any
  other request with the same token and a body, whatever its \<^verbatim>\<open>userId\<close>, passes too and
  reaches the handler with the same identifier.
\<close>

theorem authMiddleware_overwrites_userId:
  assumes "token (headers r1) = Some t" and "token (headers r2) = Some t"
    and "0 < next_calls (authMiddleware decode now env (incoming r1))"
  shows "handler_userId (authMiddleware decode now env (incoming r1)) = encoded_id decode t
    \<and> (\<forall>b1. body r1 = Some b1 \<longrightarrow>
          body (req (authMiddleware decode now env (incoming r1)))
            = Some (b1\<lparr>userId := encoded_id decode t\<rparr>))
    \<and> (\<forall>b2. body r2 = Some b2 \<longrightarrow>
          0 < next_calls (authMiddleware decode now env (incoming r2))
          \<and> handler_userId (authMiddleware decode now env (incoming r2)) = encoded_id decode t
          \<and> handler_userId (authMiddleware decode now env (incoming r2))
              = handler_userId (authMiddleware decode now env (incoming r1)))"
  using assms by (auto simp: auth_defs split: option.splits if_splits)

text \<open>
  A client that sends the token of \<^verbatim>\<open>user123\<close> with \<^verbatim>\<open>userId: "admin"\<close> in the body
  reaches the handler as \<^verbatim>\<open>user123\<close>, as does one that sends no \<^verbatim>\<open>userId\<close>.
\<close>

theorem authMiddleware_overwrites_userId_witness:
  "handler_userId (incoming (mockReq (Some ''user123.test-secret'') (Some ''admin''))) = Some ''admin''
   \<and> handler_userId (authMiddleware test_decode 0 None (incoming (mockReq (Some ''user123.test-secret'') (Some ''admin'')))) = Some ''user123''
   \<and> handler_userId (authMiddleware test_decode 0 None (incoming (mockReq (Some ''user123.test-secret'') None))) = Some ''user123''"
proof -
  let ?r1 = "mockReq (Some ''user123.test-secret'') (Some ''admin'')"
  let ?r2 = "mockReq (Some ''user123.test-secret'') None"
  have h1: "token (headers ?r1) = Some ''user123.test-secret''" by (simp add: mockReq_def)
  have h2: "token (headers ?r2) = Some ''user123.test-secret''" by (simp add: mockReq_def)
  have h3: "0 < next_calls (authMiddleware test_decode 0 None (incoming ?r1))"
    by (simp add: auth_defs test_defs)
  have b2: "body ?r2 = Some \<lparr>userId = None\<rparr>" by (simp add: mockReq_def)
  have c: "handler_userId (incoming ?r1) = Some ''admin''"
    by (simp add: handler_userId_def incoming_def mockReq_def)
  have e: "encoded_id test_decode ''user123.test-secret'' = Some ''user123''"
    by (simp add: encoded_id_def test_decode_def)
  from authMiddleware_overwrites_userId [OF h1 h2 h3] b2 c e show ?thesis
    by simp
qed

section \<open>Properties of the health endpoint\<close>

text \<open>
  C9: the health handler answers with status code 200 and a body whose \<^verbatim>\<open>status\<close> is
  \<^verbatim>\<open>"UP"\<close> in every process state, and its answer does not depend on whether the
  database is connected.
\<close>

theorem health_always_up:
  "status_code (health p) = 200 \<and> status (json_body (health p)) = ''UP''
   \<and> health (p\<lparr>db_connected := d\<rparr>) = health p"
  by (simp add: health_def)


section \<open>Properties of the Order Ledger and the Cart Aggregator\<close>

text \<open>
  C4: for every user, address and store, \<^verbatim>\<open>placeOrder\<close> with an empty item list fails
  with \<open>ValidationError EmptyCart\<close> and leaves the store, and so the order ledger, as it
  was.
\<close>

theorem placeOrder_empty_cart:
  "placeOrder gw now s u [] addr = (Inl (ValidationError EmptyCart), s)
   \<and> orders (snd (placeOrder gw now s u [] addr)) = orders s"
  by (simp add: placeOrder_def)

lemma order_total_sum:
  "order_total cat its acc = Inr t \<Longrightarrow>
     t = acc + sum_list (map (line_total cat) its) \<and> list_all (\<lambda>it. cat (item_ref it) \<noteq> None) its"
proof (induction its arbitrary: acc)
  case Nil
  then show ?case by simp
next
  case (Cons it its)
  then obtain f where f: "cat (item_ref it) = Some f"
    by (auto split: option.splits)
  with Cons.prems have "order_total cat its (acc + price f * quantity it) = Inr t"
    by simp
  from Cons.IH [OF this] f show ?case
    by (simp add: line_total_def)
qed

text \<open>
  C5: for every non-empty item list, when \<^verbatim>\<open>placeOrder\<close> changes the ledger it appends
  exactly one order, in the state "Food Processing", whose items are the ordered ones,
  all listed in the catalog, and whose amount is the sum over them of catalog price times
  ordered quantity, at the prices of the store the call started from.
\<close>

theorem placeOrder_amount:
  assumes "its \<noteq> []" and "placeOrder gw now s u its addr = (r, s')" and "orders s' \<noteq> orders s"
  shows "\<exists>ord. orders s' = orders s @ [ord] \<and> order_items ord = its \<and> owner ord = u
           \<and> amount ord = sum_list (map (line_total (catalog s)) its)
           \<and> list_all (\<lambda>it. catalog s (item_ref it) \<noteq> None) its
           \<and> fulfilment ord = ''Food Processing''"
  using assms
  by (auto simp: placeOrder_def Let_def split: if_splits sum.splits option.splits
           dest!: order_total_sum)

text \<open>
  The spec's scenario: two of f1 at price 12 give an order of amount 24.
\<close>

theorem placeOrder_amount_witness:
  "[\<lparr>item_ref = ''f1'', quantity = 2\<rparr>] \<noteq> []
   \<and> orders (snd (placeOrder stripe_ok 7 store0 ''A'' [\<lparr>item_ref = ''f1'', quantity = 2\<rparr>] ''12 Main St''))
       \<noteq> orders store0
   \<and> (\<exists>ord. orders (snd (placeOrder stripe_ok 7 store0 ''A'' [\<lparr>item_ref = ''f1'', quantity = 2\<rparr>] ''12 Main St''))
          = orders store0 @ [ord]
        \<and> amount ord = 24 \<and> fulfilment ord = ''Food Processing'')"
proof -
  let ?its = "[\<lparr>item_ref = ''f1'', quantity = 2\<rparr>]"
  let ?p = "placeOrder stripe_ok 7 store0 ''A'' ?its ''12 Main St''"
  have h1: "?its \<noteq> []" by simp
  have h2: "?p = (fst ?p, snd ?p)" by simp
  have h3: "orders (snd ?p) \<noteq> orders store0"
    by (simp add: placeOrder_def store0_def item_f1_def user_A_def stripe_ok_def Let_def)
  have "sum_list (map (line_total (catalog store0)) ?its) = 24"
    by (simp add: line_total_def store0_def item_f1_def)
  with placeOrder_amount [OF h1 h2 h3] h1 h3 show ?thesis
    by auto
qed


lemma qty_nonneg: "cart_nonneg c \<Longrightarrow> 0 \<le> qty c i"
  by (auto simp: cart_nonneg_def qty_def ran_def split: option.splits)

text \<open>
  C6: for every existing user whose cart holds no negative quantity and every item,
  \<^verbatim>\<open>addItem\<close> followed by \<^verbatim>\<open>removeItem\<close> on that item both succeed and give back the
  store they started from, up to the user's cart, which shows the same quantity as before
  for every item when an absent entry and a quantity of zero count as equal. This holds
  whether or not zero entries are pruned.
\<close>

theorem addItem_removeItem_roundtrip:
  assumes "users s u = Some usr" and "cart_nonneg (cartData usr)"
  shows "\<exists>s1 c. addItem s u i = Inr s1
           \<and> removeItem prune s1 u i = Inr (s\<lparr>users := (users s)(u \<mapsto> usr\<lparr>cartData := c\<rparr>)\<rparr>)
           \<and> (\<forall>j. qty c j = qty (cartData usr) j)"
proof -
  let ?q = "qty (cartData usr) i"
  let ?c1 = "(cartData usr)(i \<mapsto> ?q + 1)"
  let ?s1 = "s\<lparr>users := (users s)(u \<mapsto> usr\<lparr>cartData := ?c1\<rparr>)\<rparr>"
  let ?c2 = "if ?q = 0 \<and> prune then ?c1(i := None) else ?c1(i \<mapsto> ?q)"
  from assms(2) have q: "0 \<le> ?q" by (rule qty_nonneg)
  from assms(1) have add: "addItem s u i = Inr ?s1"
    by (simp add: addItem_def)
  have "qty ?c1 i = ?q + 1" by (simp add: qty_def)
  with q have "max 0 (qty ?c1 i - 1) = ?q" by simp
  then have rem: "removeItem prune ?s1 u i = Inr (s\<lparr>users := (users s)(u \<mapsto> usr\<lparr>cartData := ?c2\<rparr>)\<rparr>)"
    by (simp add: removeItem_def Let_def)
  have "qty ?c2 j = qty (cartData usr) j" for j
    by (simp add: qty_def split: option.splits)
  with add rem show ?thesis by blast
qed

text \<open>
  User A's empty cart, item f1, zero entries kept: the cart ends with f1 at quantity 0.
\<close>

theorem addItem_removeItem_roundtrip_witness:
  "users store0 ''A'' = Some user_A \<and> cart_nonneg (cartData user_A)
   \<and> (\<exists>s1 c. addItem store0 ''A'' ''f1'' = Inr s1
         \<and> removeItem False s1 ''A'' ''f1'' = Inr (store0\<lparr>users := (users store0)(''A'' \<mapsto> user_A\<lparr>cartData := c\<rparr>)\<rparr>)
         \<and> (\<forall>j. qty c j = qty (cartData user_A) j))"
proof -
  have h1: "users store0 ''A'' = Some user_A" by (simp add: store0_def)
  have h2: "cart_nonneg (cartData user_A)" by (simp add: user_A_def cart_nonneg_def)
  from addItem_removeItem_roundtrip [OF h1 h2, of "''f1''" False] h1 h2 show ?thesis
    by simp
qed

lemma cart_nonneg_upd: "cart_nonneg c \<Longrightarrow> 0 \<le> q \<Longrightarrow> cart_nonneg (c(i \<mapsto> q))"
  by (auto simp: cart_nonneg_def ran_def)

lemma cart_nonneg_del: "cart_nonneg c \<Longrightarrow> cart_nonneg (c(i := None))"
  by (auto simp: cart_nonneg_def ran_def split: if_splits)

lemma carts_nonneg_upd:
  "carts_nonneg s \<Longrightarrow> cart_nonneg c \<Longrightarrow>
     carts_nonneg (s\<lparr>users := (users s)(u \<mapsto> usr\<lparr>cartData := c\<rparr>)\<rparr>)"
  by (auto simp: carts_nonneg_def ran_def split: if_splits)

lemma carts_nonneg_user: "carts_nonneg s \<Longrightarrow> users s u = Some usr \<Longrightarrow> cart_nonneg (cartData usr)"
  by (auto simp: carts_nonneg_def ran_def)

lemma addItem_nonneg: "carts_nonneg s \<Longrightarrow> addItem s u i = Inr s' \<Longrightarrow> carts_nonneg s'"
proof -
  assume inv: "carts_nonneg s" and run: "addItem s u i = Inr s'"
  from run obtain usr where usr: "users s u = Some usr"
    and s': "s' = s\<lparr>users := (users s)(u \<mapsto> usr\<lparr>cartData := (cartData usr)(i \<mapsto> qty (cartData usr) i + 1)\<rparr>)\<rparr>"
    by (auto simp: addItem_def split: option.splits)
  from inv usr have c: "cart_nonneg (cartData usr)" by (rule carts_nonneg_user)
  then have "0 \<le> qty (cartData usr) i + 1" using qty_nonneg [OF c, of i] by simp
  with c have "cart_nonneg ((cartData usr)(i \<mapsto> qty (cartData usr) i + 1))"
    by (rule cart_nonneg_upd)
  with inv show ?thesis unfolding s' by (rule carts_nonneg_upd)
qed

lemma removeItem_nonneg: "carts_nonneg s \<Longrightarrow> removeItem prune s u i = Inr s' \<Longrightarrow> carts_nonneg s'"
proof -
  assume inv: "carts_nonneg s" and run: "removeItem prune s u i = Inr s'"
  from run obtain usr where usr: "users s u = Some usr"
    by (auto simp: removeItem_def split: option.splits)
  from inv usr have c: "cart_nonneg (cartData usr)" by (rule carts_nonneg_user)
  let ?q = "max 0 (qty (cartData usr) i - 1)"
  let ?c = "if ?q = 0 \<and> prune then (cartData usr)(i := None) else (cartData usr)(i \<mapsto> ?q)"
  have "cart_nonneg ?c"
    using c by (simp add: cart_nonneg_upd cart_nonneg_del)
  with inv have "carts_nonneg (s\<lparr>users := (users s)(u \<mapsto> usr\<lparr>cartData := ?c\<rparr>)\<rparr>)"
    by (rule carts_nonneg_upd)
  moreover from run usr have "s' = s\<lparr>users := (users s)(u \<mapsto> usr\<lparr>cartData := ?c\<rparr>)\<rparr>"
    by (simp add: removeItem_def Let_def)
  ultimately show ?thesis by simp
qed

lemma cart_step_nonneg: "carts_nonneg s \<Longrightarrow> carts_nonneg (cart_step prune s x)"
  by (cases x) (auto split: sum.splits intro: addItem_nonneg removeItem_nonneg)

lemma run_cart_nonneg: "carts_nonneg s \<Longrightarrow> carts_nonneg (run_cart prune s xs)"
  by (induction xs arbitrary: s) (simp_all add: cart_step_nonneg)

text \<open>
  C7: from a store in which no cart holds a negative quantity, every sequence of
  \<^verbatim>\<open>addItem\<close>, \<^verbatim>\<open>removeItem\<close> and \<^verbatim>\<open>getCart\<close> requests leads to such a store, so every
  quantity of every user's cart stays non-negative; and \<^verbatim>\<open>removeItem\<close> on an item
  whose quantity is zero or that has no entry succeeds and leaves the item at quantity
  zero (entry pruned or kept at 0).
\<close>

theorem cart_quantities_never_negative:
  "(carts_nonneg s \<longrightarrow> carts_nonneg (run_cart prune s xs))
   \<and> (carts_nonneg s \<and> users (run_cart prune s xs) u = Some usr \<longrightarrow> 0 \<le> qty (cartData usr) i)
   \<and> (users s u = Some usr \<and> qty (cartData usr) i \<le> 0 \<longrightarrow>
        (\<exists>s'. removeItem prune s u i = Inr s' \<and> cart_qty s' u i = Some 0))"
proof (intro conjI impI)
  assume "carts_nonneg s"
  then show "carts_nonneg (run_cart prune s xs)" by (rule run_cart_nonneg)
next
  assume "carts_nonneg s \<and> users (run_cart prune s xs) u = Some usr"
  then have "carts_nonneg (run_cart prune s xs)" and "users (run_cart prune s xs) u = Some usr"
    by (simp_all add: run_cart_nonneg)
  then have "cart_nonneg (cartData usr)" by (rule carts_nonneg_user)
  then show "0 \<le> qty (cartData usr) i" by (rule qty_nonneg)
next
  assume "users s u = Some usr \<and> qty (cartData usr) i \<le> 0"
  then show "\<exists>s'. removeItem prune s u i = Inr s' \<and> cart_qty s' u i = Some 0"
    by (auto simp: removeItem_def cart_qty_def getCart_def qty_def Let_def split: option.splits)
qed

text \<open>
  User A removes f1 from an empty cart, adds it, reads the cart and removes it twice.
\<close>

theorem cart_quantities_never_negative_witness:
  "carts_nonneg store0
   \<and> carts_nonneg (run_cart False store0 [RemoveItem ''A'' ''f1'', AddItem ''A'' ''f1'', GetCart ''A'', RemoveItem ''A'' ''f1'', RemoveItem ''A'' ''f1''])
   \<and> users store0 ''A'' = Some user_A \<and> qty (cartData user_A) ''f1'' \<le> 0
   \<and> (\<exists>s'. removeItem False store0 ''A'' ''f1'' = Inr s' \<and> cart_qty s' ''A'' ''f1'' = Some 0)"
proof -
  have h1: "carts_nonneg store0"
    by (simp add: carts_nonneg_def store0_def user_A_def cart_nonneg_def)
  have h2: "users store0 ''A'' = Some user_A \<and> qty (cartData user_A) ''f1'' \<le> 0"
    by (simp add: store0_def user_A_def qty_def)
  from cart_quantities_never_negative [of store0 False _ "''A''" user_A "''f1''"] h1 h2
  show ?thesis by blast
qed

lemma find_mark_paid:
  "find (\<lambda>y. order_id y = oid) xs = Some x \<Longrightarrow>
     find (\<lambda>y. order_id y = oid) (mark_paid oid xs) = Some (x\<lparr>payment := True\<rparr>)"
  by (induction xs) (auto split: if_splits)

lemma mark_paid_twice: "mark_paid oid (mark_paid oid xs) = mark_paid oid xs"
  by (induction xs) auto

lemma length_mark_paid: "length (mark_paid oid xs) = length xs"
  by (induction xs) auto

lemma mark_paid_others:
  "filter (\<lambda>y. order_id y \<noteq> oid) (mark_paid oid xs) = filter (\<lambda>y. order_id y \<noteq> oid) xs"
  by (induction xs) auto

text \<open>
  C8: for every order identifier that the ledger holds, \<^verbatim>\<open>verifyPayment(orderId, true)\<close>
  succeeds, and a second call on the resulting store succeeds and returns that same store:
  the order's payment status is true, the order is otherwise as it was, the ledger has as
  many records as before and all other orders are unchanged.
\<close>

theorem verifyPayment_idempotent:
  assumes "find_order s oid = Some x"
  shows "\<exists>s1. verifyPayment s oid True = Inr s1 \<and> verifyPayment s1 oid True = Inr s1
           \<and> find_order s1 oid = Some (x\<lparr>payment := True\<rparr>)
           \<and> length (orders s1) = length (orders s)
           \<and> filter (\<lambda>y. order_id y \<noteq> oid) (orders s1) = filter (\<lambda>y. order_id y \<noteq> oid) (orders s)"
  using assms
  by (simp add: verifyPayment_def find_order_def find_mark_paid mark_paid_twice
        length_mark_paid mark_paid_others)

text \<open>
  User A's pending order 0 is marked paid; verifying it again changes nothing.
\<close>

theorem verifyPayment_idempotent_witness:
  "find_order store1 0 = Some order_0
   \<and> verifyPayment store1 0 True = Inr (store1\<lparr>orders := [order_0\<lparr>payment := True\<rparr>]\<rparr>)
   \<and> verifyPayment (store1\<lparr>orders := [order_0\<lparr>payment := True\<rparr>]\<rparr>) 0 True
       = Inr (store1\<lparr>orders := [order_0\<lparr>payment := True\<rparr>]\<rparr>)"
proof -
  have h: "find_order store1 0 = Some order_0"
    by (simp add: find_order_def store1_def order_0_def)
  have v: "verifyPayment store1 0 True = Inr (store1\<lparr>orders := [order_0\<lparr>payment := True\<rparr>]\<rparr>)"
    by (simp add: verifyPayment_def find_order_def store1_def order_0_def)
  from verifyPayment_idempotent [OF h] h v show ?thesis
    by auto
qed

end
